theory Spec2Isabelle
  imports Complex_Main "HOL-Library.Sublist" "HOL-Library.AList" "HOL-Library.Multiset"
begin

section \<open>Python strings and dictionaries\<close>

text \<open>
  A Python \<open>str\<close> is a sequence of code points. The model uses \<^typ>\<open>string\<close>, one
  \<^typ>\<open>char\<close> per code point in the range 0..255 (Latin-1), so \<^const>\<open>length\<close> counts
  what Python's \<open>len\<close> counts on such text. A \<open>dict\<close> with string keys is an association
  list in insertion order; \<^const>\<open>AList.update\<close> overwrites in place or appends, as
  assignment to a dict key does.
\<close>

type_synonym metadata = "(string \<times> string) list"

definition meta_get :: "metadata \<Rightarrow> string \<Rightarrow> string option" where
  "meta_get m k = map_of m k"


text \<open>\<open>str.isspace\<close> (and the regular expression class \<open>\s\<close>) on code points below 256.\<close>

definition is_space :: "char \<Rightarrow> bool" where
  "is_space c = (c \<in> set [CHR 0x09, CHR 0x0A, CHR 0x0B, CHR 0x0C, CHR 0x0D, CHR 0x1C, CHR 0x1D,
                            CHR 0x1E, CHR 0x1F, CHR 0x20, CHR 0x85, CHR 0xA0])"

text \<open>\<open>str.strip()\<close>.\<close>

definition py_strip :: "string \<Rightarrow> string" where
  "py_strip s = rev (dropWhile is_space (rev (dropWhile is_space s)))"

text \<open>\<open>re.sub(r'\s+', ' ', text)\<close>: every maximal run of whitespace becomes one blank.\<close>

fun collapse_ws :: "string \<Rightarrow> string" where
  "collapse_ws [] = []"
| "collapse_ws [c] = (if is_space c then [CHR 0x20] else [c])"
| "collapse_ws (c # d # cs) =
     (if is_space c then (if is_space d then collapse_ws (d # cs) else CHR 0x20 # collapse_ws (d # cs))
      else c # collapse_ws (d # cs))"

text \<open>
  Slicing \<open>xs[i:j]\<close> with Python's treatment of indices: a negative index counts from the
  end, and every index is clamped to the range of the list.
\<close>

definition clamp_index :: "nat \<Rightarrow> int \<Rightarrow> nat" where
  "clamp_index n i = (if i < 0 then nat (int n + i) else min n (nat i))"

definition py_slice :: "'a list \<Rightarrow> int \<Rightarrow> int \<Rightarrow> 'a list" where
  "py_slice xs i j =
     (let a = clamp_index (length xs) i; b = clamp_index (length xs) j
      in take (b - a) (drop a xs))"

text \<open>\<open>s.rfind(sep)\<close>: the highest index at which \<open>sep\<close> occurs, \<open>None\<close> for Python's -1.\<close>

fun rfind :: "'a list \<Rightarrow> 'a list \<Rightarrow> nat option" where
  "rfind [] sep = (if sep = [] then Some 0 else None)"
| "rfind (c # cs) sep =
     (case rfind cs sep of
        Some p \<Rightarrow> Some (Suc p)
      | None \<Rightarrow> if prefix sep (c # cs) then Some 0 else None)"

text \<open>\<open>sub in s\<close> on strings.\<close>

fun contains :: "'a list \<Rightarrow> 'a list \<Rightarrow> bool" where
  "contains sub [] = (sub = [])"
| "contains sub (c # cs) = (prefix sub (c # cs) \<or> contains sub cs)"

text \<open>\<open>sep.join(xs)\<close>.\<close>

fun py_join :: "string \<Rightarrow> string list \<Rightarrow> string" where
  "py_join sep [] = []"
| "py_join sep [x] = x"
| "py_join sep (x # y # ys) = x @ sep @ py_join sep (y # ys)"

text \<open>\<open>str(n)\<close> for integers.\<close>

definition digit_char :: "nat \<Rightarrow> char" where
  "digit_char d = char_of (48 + d)"

fun show_nat :: "nat \<Rightarrow> string" where
  "show_nat n = (if n < 10 then [digit_char n] else show_nat (n div 10) @ [digit_char (n mod 10)])"

declare show_nat.simps [simp del]

definition show_int :: "int \<Rightarrow> string" where
  "show_int i = (if i < 0 then CHR ''-'' # show_nat (nat (- i)) else show_nat (nat i))"

text \<open>\<open>list(dict.fromkeys(xs))\<close>: duplicates removed, first occurrences kept in order.\<close>

definition dict_fromkeys :: "'a list \<Rightarrow> 'a list" where
  "dict_fromkeys xs = fold (\<lambda>x acc. if x \<in> set acc then acc else acc @ [x]) xs []"

section \<open>Chunking (\<open>DocumentProcessor._create_chunks\<close>)\<close>

record DocumentChunk =
  id :: string
  content :: string
  chunk_metadata :: metadata

definition separators :: "string list" where
  "separators = [''. '', ''! '', ''? '', [CHR 0x0A]]"

text \<open>
  The loop over the separators: the first separator, in the order of the list, that occurs in
  the search region decides; the offset returned is \<open>last_sep + len(sep)\<close>.
\<close>

fun find_break :: "string \<Rightarrow> string list \<Rightarrow> nat option" where
  "find_break region [] = None"
| "find_break region (sep # seps) =
     (case rfind region sep of
        Some last_sep \<Rightarrow> Some (last_sep + length sep)
      | None \<Rightarrow> find_break region seps)"

text \<open>
  The cut point of the window starting at \<open>start\<close>. \<open>int(chunk_chars * 0.8)\<close> is
  \<open>chunk_chars * 4 div 5\<close> for the non-negative window sizes modelled here.
\<close>

definition chunk_end :: "nat \<Rightarrow> string \<Rightarrow> int \<Rightarrow> int" where
  "chunk_end chunk_chars text start =
     (let end = start + int chunk_chars in
      if end < int (length text) then
        (let search_start = start + int (chunk_chars * 4 div 5);
             search_region = py_slice text search_start end
         in case find_break search_region separators of
              Some off \<Rightarrow> search_start + int off
            | None \<Rightarrow> end)
      else end)"

definition make_chunk :: "string \<Rightarrow> metadata \<Rightarrow> nat \<Rightarrow> int \<Rightarrow> int \<Rightarrow> string \<Rightarrow> DocumentChunk" where
  "make_chunk doc_id base_metadata chunk_index start end chunk_text =
     \<lparr> id = doc_id @ ''_chunk_'' @ show_nat chunk_index,
       content = chunk_text,
       chunk_metadata =
         AList.update ''chunk_end'' (show_int end)
           (AList.update ''chunk_start'' (show_int start)
              (AList.update ''chunk_index'' (show_nat chunk_index) base_metadata)) \<rparr>"

text \<open>One iteration of the \<open>while\<close> loop on the state \<open>(start, chunk_index, chunks)\<close>.\<close>

definition chunk_step ::
  "nat \<Rightarrow> nat \<Rightarrow> string \<Rightarrow> string \<Rightarrow> metadata \<Rightarrow> int \<times> nat \<times> DocumentChunk list
     \<Rightarrow> int \<times> nat \<times> DocumentChunk list" where
  "chunk_step chunk_chars overlap_chars text doc_id base_metadata st =
     (case st of (start, chunk_index, chunks) \<Rightarrow>
        let end = chunk_end chunk_chars text start;
            chunk_text = py_strip (py_slice text start end);
            chunks' = (if chunk_text \<noteq> []
                       then chunks @ [make_chunk doc_id base_metadata chunk_index start end chunk_text]
                       else chunks);
            chunk_index' = (if chunk_text \<noteq> [] then chunk_index + 1 else chunk_index);
            start' = end - int overlap_chars
        in (if start' \<le> 0 \<and> chunk_index' > 0 then end else start', chunk_index', chunks'))"

text \<open>The loop may run forever (a window of size 0 never advances), so it is partial.\<close>

partial_function (option) chunk_loop ::
  "nat \<Rightarrow> nat \<Rightarrow> string \<Rightarrow> string \<Rightarrow> metadata \<Rightarrow> int \<times> nat \<times> DocumentChunk list
     \<Rightarrow> DocumentChunk list option" where
  "chunk_loop chunk_chars overlap_chars text doc_id base_metadata st =
     (if fst st < int (length text)
      then chunk_loop chunk_chars overlap_chars text doc_id base_metadata
             (chunk_step chunk_chars overlap_chars text doc_id base_metadata st)
      else Some (snd (snd st)))"

declare chunk_loop.simps [code]

definition chars_per_token :: nat where
  "chars_per_token = 4"

definition create_chunks ::
  "nat \<Rightarrow> nat \<Rightarrow> string \<Rightarrow> string \<Rightarrow> metadata \<Rightarrow> DocumentChunk list option" where
  "create_chunks chunk_size chunk_overlap text doc_id base_metadata =
     (if py_strip text = [] then Some []
      else
        let text' = py_strip (collapse_ws text);
            chunk_chars = chunk_size * chars_per_token;
            overlap_chars = chunk_overlap * chars_per_token
        in chunk_loop chunk_chars overlap_chars text' doc_id base_metadata (0, 0, []))"






section \<open>Query expansion (\<open>query_enhancement.expand_query\<close>)\<close>

text \<open>\<open>str.lower()\<close> on code points below 256.\<close>

definition py_lower_char :: "char \<Rightarrow> char" where
  "py_lower_char c =
     (let n = (of_char c :: nat)
      in if (65 \<le> n \<and> n \<le> 90) \<or> (192 \<le> n \<and> n \<le> 222 \<and> n \<noteq> 215) then char_of (n + 32) else c)"

definition py_lower :: "string \<Rightarrow> string" where
  "py_lower s = map py_lower_char s"

definition LEGAL_EXPANSIONS :: "(string \<times> string list) list" where
  "LEGAL_EXPANSIONS =
    [(''vertrag'', [''Kontrakt'', ''Vereinbarung'', ''Obligationenrecht'', ''OR'']),
     (''vertrag entsteht'', [''Entstehung durch Vertrag'', ''Vertragsschluss'', ''Willens'' @ [CHR 0xE4] @ ''usserung'', ''Antrag Annahme'']),
     (''k'' @ [CHR 0xFC] @ ''ndigung'', [''K'' @ [CHR 0xFC] @ ''ndigungsfrist'', ''Beendigung'', ''Aufl'' @ [CHR 0xF6] @ ''sung'', ''Art. 335'']),
     (''k'' @ [CHR 0xFC] @ ''ndigungsfrist'', [''Probezeit'', ''Dienstjahr'', ''Art. 335c OR'']),
     (''arbeitsvertrag'', [''Einzelarbeitsvertrag'', ''Arbeitsverh'' @ [CHR 0xE4] @ ''ltnis'', ''Art. 319 OR'']),
     (''miete'', [''Mietvertrag'', ''Mietzins'', ''Vermieter'', ''Mieter'', ''VMWG'']),
     (''kauf'', [''Kaufvertrag'', ''K'' @ [CHR 0xE4] @ ''ufer'', ''Verk'' @ [CHR 0xE4] @ ''ufer'', ''Kaufpreis'']),
     (''schaden'', [''Schadenersatz'', ''Haftung'', ''Art. 41 OR'', ''unerlaubte Handlung'']),
     (''gew'' @ [CHR 0xE4] @ ''hrleistung'', [''M'' @ [CHR 0xE4] @ ''ngel'', ''Sachmangel'', ''Wandelung'', ''Minderung'']),
     (''gesetz'', [''Bundesgesetz'', ''Verordnung'', ''SR'', ''Rechtsnorm'']),
     (''artikel'', [''Art.'', ''Absatz'', ''Buchstabe'', ''Ziffer'']),
     (''recht'', [''Anspruch'', ''Berechtigung'', ''Pflicht'']),
     (''pflicht'', [''Obligation'', ''Verpflichtung'', ''Schuld'']),
     (''frist'', [''Termin'', ''Zeitraum'', ''Verj'' @ [CHR 0xE4] @ ''hrung'']),
     (''person'', [''nat'' @ [CHR 0xFC] @ ''rliche Person'', ''juristische Person'', ''Rechtsf'' @ [CHR 0xE4] @ ''higkeit'']),
     (''firma'', [''Gesellschaft'', ''AG'', ''GmbH'', ''Einzelunternehmen'']),
     (''ehe'', [''Eheschliessung'', ''Ehevertrag'', ''G'' @ [CHR 0xFC] @ ''terstand'', ''ZGB'']),
     (''erbe'', [''Erbschaft'', ''Nachlass'', ''Testament'', ''Erbfolge'']),
     (''datenschutz'', [''DSG'', ''Personendaten'', ''Datenbearbeitung'', ''Einwilligung'']),
     (''daten'', [''Personendaten'', ''besonders sch'' @ [CHR 0xFC] @ ''tzenswerte Personendaten'', ''Profiling'']),
     (''strafe'', [''Sanktion'', ''Busse'', ''Freiheitsstrafe'', ''StGB'']),
     (''betrug'', [''Arglist'', ''T'' @ [CHR 0xE4] @ ''uschung'', ''Verm'' @ [CHR 0xF6] @ ''gensschaden'']),
     (''diebstahl'', [''Entwendung'', ''Aneignung'', ''Art. 139 StGB'']),
     (''arbeit'', [''Arbeitsrecht'', ''Arbeitnehmer'', ''Arbeitgeber'', ''ArG'']),
     (''lohn'', [''Gehalt'', ''Entgelt'', ''Verg'' @ [CHR 0xFC] @ ''tung'', ''Sal'' @ [CHR 0xE4] @ ''ir'']),
     (''ferien'', [''Urlaub'', ''Ferienanspruch'', ''Art. 329a OR'']),
     ([CHR 0xFC] @ ''berstunden'', [[CHR 0xDC] @ ''berzeit'', ''Mehrarbeit'', ''Kompensation''])]"

definition KB_EXPANSIONS :: "(string \<times> (string \<times> string list) list) list" where
  "KB_EXPANSIONS = [(''bundesrecht'', LEGAL_EXPANSIONS)]"

text \<open>The inner loop over one expansion table: at most three synonyms of every matching key.\<close>

definition matched_synonyms :: "(string \<times> string list) list \<Rightarrow> string \<Rightarrow> string list" where
  "matched_synonyms expansions query_lower =
     concat (map (\<lambda>(key, synonyms). if contains key query_lower then take 3 synonyms else [])
               expansions)"

text \<open>The outer loop over the knowledge-base ids.\<close>

definition expanded_terms_of ::
  "(string \<times> (string \<times> string list) list) list \<Rightarrow> string \<Rightarrow> string list \<Rightarrow> string list" where
  "expanded_terms_of kb_expansions query_lower kb_ids =
     concat (map (\<lambda>kb_id. case map_of kb_expansions kb_id of
                             None \<Rightarrow> []
                           | Some expansions \<Rightarrow> matched_synonyms expansions query_lower)
               kb_ids)"

definition expand_query :: "string \<Rightarrow> string list option \<Rightarrow> string" where
  "expand_query query knowledge_base_ids =
     (case knowledge_base_ids of
        None \<Rightarrow> query
      | Some kb_ids \<Rightarrow>
          if kb_ids = [] then query
          else
            let expanded_terms = expanded_terms_of KB_EXPANSIONS (py_lower query) kb_ids
            in if expanded_terms \<noteq> []
               then query @ '' '' @ py_join '' '' (take 6 (dict_fromkeys expanded_terms))
               else query)"

section \<open>The retrieval engine (\<open>rag_engine.py\<close>, \<open>embeddings.py\<close>)\<close>

text \<open>
  Scores are Python floats; the model computes with real numbers. The vector store (ChromaDB),
  the embedding services, the tokenizer's regular expressions and the BM25 scoring library
  are collaborators outside the repository: their answers are fields of \<open>env\<close>, so every
  theorem holds for all of them. A failure of a collaborator is a value: an embedding service
  answers \<open>None\<close>, a query or an insertion into a collection answers \<open>Inl\<close> of an error.
  Reading a whole collection with \<open>get\<close> does not fail in the model.
\<close>

datatype py_error = ZeroDivisionError | IndexError | KeyError | ChromaError


record row =
  row_id :: string
  document :: string
  row_metadata :: metadata
  embedding :: "real list"

record SearchResult =
  chunk_id :: string
  result_content :: string
  score :: real
  result_metadata :: metadata

record BM25Index =
  kb_id :: string
  bm25 :: "string list list option"
  doc_ids :: "string list"
  documents :: "string list"
  tokenized_corpus :: "string list list"

text \<open>The pickled form of an index: \<open>doc_ids\<close>, \<open>documents\<close>, \<open>tokenized_corpus\<close>.\<close>

type_synonym index_data = "string list \<times> string list \<times> string list list"

record env =
  collection_prefix :: string
  similarity_threshold :: real
  top_k_api :: nat
  search_provider :: string
  openai_api_key :: string
  openai_http :: "string list \<Rightarrow> real list list option"
  local_http :: "string list \<Rightarrow> real list list option"
  chroma_query :: "string \<Rightarrow> real list \<Rightarrow> nat \<Rightarrow> py_error + (row \<times> real) list"
  chroma_add :: "string \<Rightarrow> row list \<Rightarrow> row list \<Rightarrow> py_error + row list"
  tokenize :: "string \<Rightarrow> string list"
  bm25_get_scores :: "string list list \<Rightarrow> string list \<Rightarrow> real list"
  has_article_ref :: "string \<Rightarrow> bool"
  has_sr_number :: "string \<Rightarrow> bool"

text \<open>
  The state of the engine: the collections of the store by name (a collection that does not
  exist yet reads as empty, as \<open>get_or_create_collection\<close> makes it), the ids that
  \<open>list_knowledge_bases\<close> enumerates, the BM25 indices in memory and the index files on disk
  (\<open>Some None\<close> is a file that cannot be unpickled).
\<close>

record engine =
  collections :: "string \<Rightarrow> row list"
  listed_kb_ids :: "string list"
  bm25_indices :: "string \<Rightarrow> BM25Index option"
  bm25_files :: "string \<Rightarrow> index_data option option"


definition get_top_k :: "env \<Rightarrow> nat" where
  "get_top_k e = top_k_api e"

definition get_collection_name :: "env \<Rightarrow> string \<Rightarrow> string option \<Rightarrow> string" where
  "get_collection_name e kb provider =
     (case provider of
        None \<Rightarrow> collection_prefix e @ kb
      | Some p \<Rightarrow> if p = [] then collection_prefix e @ kb else collection_prefix e @ kb @ ''_'' @ p)"

definition is_kb_metadata :: "metadata \<Rightarrow> bool" where
  "is_kb_metadata m = (meta_get m ''type'' = Some ''kb_metadata'')"

subsection \<open>Embedding service\<close>

definition ollama_available :: bool where
  "ollama_available = False"

definition openai_available :: "env \<Rightarrow> bool" where
  "openai_available e = (openai_api_key e \<noteq> [])"


definition embed_with_local :: "env \<Rightarrow> string list \<Rightarrow> real list list option" where
  "embed_with_local e texts =
     (if texts = [] then None else if \<not> ollama_available then None else local_http e texts)"

definition embed_with_openai :: "env \<Rightarrow> string list \<Rightarrow> real list list option" where
  "embed_with_openai e texts =
     (if texts = [] then None else if \<not> openai_available e then None else openai_http e texts)"



definition embed_text :: "env \<Rightarrow> string \<Rightarrow> string \<Rightarrow> real list option" where
  "embed_text e txt provider =
     (let provider' = (if provider = ''auto'' then search_provider e else provider);
          result = (if provider' = ''local'' then embed_with_local e [txt]
                    else embed_with_openai e [txt])
      in case result of
           None \<Rightarrow> None
         | Some embs \<Rightarrow> (case embs of [] \<Rightarrow> None | v # _ \<Rightarrow> Some v))"

subsection \<open>Vector search\<close>

text \<open>The loop over the neighbours that one collection returns.\<close>

fun collect_results :: "real \<Rightarrow> (row \<times> real) list \<Rightarrow> SearchResult list" where
  "collect_results threshold [] = []"
| "collect_results threshold ((r, distance) # rest) =
     (if row_id r = ''__kb_metadata__'' then collect_results threshold rest
      else if is_kb_metadata (row_metadata r) then collect_results threshold rest
      else if 1 - distance \<ge> threshold
        then \<lparr> chunk_id = row_id r, result_content = document r, score = 1 - distance,
               result_metadata = row_metadata r \<rparr> # collect_results threshold rest
      else collect_results threshold rest)"

definition search_kb :: "env \<Rightarrow> nat \<Rightarrow> string \<Rightarrow> real list \<Rightarrow> string \<Rightarrow> SearchResult list" where
  "search_kb e top_k provider query_embedding kb =
     (case chroma_query e (get_collection_name e kb (Some provider)) query_embedding (top_k + 1) of
        Inl err \<Rightarrow> []
      | Inr neighbours \<Rightarrow> collect_results (similarity_threshold e) neighbours)"

definition search ::
  "env \<Rightarrow> engine \<Rightarrow> string \<Rightarrow> string list option \<Rightarrow> nat option \<Rightarrow> string option
     \<Rightarrow> SearchResult list" where
  "search e st query kb_ids top_k provider =
     (let top_k' = (case top_k of None \<Rightarrow> get_top_k e | Some k \<Rightarrow> k);
          provider' = (case provider of None \<Rightarrow> search_provider e | Some p \<Rightarrow> p)
      in case embed_text e query provider' of
           None \<Rightarrow> []
         | Some query_embedding \<Rightarrow>
             let kbs = (case kb_ids of None \<Rightarrow> listed_kb_ids st | Some ks \<Rightarrow> ks);
                 all_results = concat (map (search_kb e top_k' provider' query_embedding) kbs)
             in take top_k' (sort_key (\<lambda>r. - score r) all_results))"

subsection \<open>Full-text search\<close>

fun fulltext_matches :: "string \<Rightarrow> row list \<Rightarrow> SearchResult list" where
  "fulltext_matches query_lower [] = []"
| "fulltext_matches query_lower (r # rest) =
     (if contains query_lower (py_lower (document r))
      then \<lparr> chunk_id = row_id r, result_content = document r, score = 1,
             result_metadata = row_metadata r \<rparr> # fulltext_matches query_lower rest
      else fulltext_matches query_lower rest)"

definition fulltext_search :: "env \<Rightarrow> engine \<Rightarrow> string \<Rightarrow> string list option \<Rightarrow> SearchResult list" where
  "fulltext_search e st query kb_ids =
     (let kbs = (case kb_ids of None \<Rightarrow> listed_kb_ids st | Some ks \<Rightarrow> ks)
      in concat (map (\<lambda>kb. fulltext_matches (py_lower query)
                               (collections st (get_collection_name e kb None))) kbs))"

subsection \<open>The lexical index (\<open>BM25Index\<close>)\<close>


definition index_data_of :: "BM25Index \<Rightarrow> index_data" where
  "index_data_of idx = (doc_ids idx, documents idx, tokenized_corpus idx)"

text \<open>\<open>build_index\<close>, without the write to disk, which the caller below records.\<close>

definition build_index :: "env \<Rightarrow> BM25Index \<Rightarrow> string list \<Rightarrow> string list \<Rightarrow> BM25Index" where
  "build_index e idx ids docs =
     (let corpus = map (tokenize e) docs
      in idx \<lparr> doc_ids := ids, documents := docs, tokenized_corpus := corpus,
               bm25 := (if corpus \<noteq> [] then Some corpus else None) \<rparr>)"





text \<open>The rows that \<open>_rebuild_bm25_index\<close> keeps: everything but the sentinel record.\<close>

fun corpus_rows :: "row list \<Rightarrow> row list" where
  "corpus_rows [] = []"
| "corpus_rows (r # rest) =
     (if row_id r = ''__kb_metadata__'' then corpus_rows rest
      else if is_kb_metadata (row_metadata r) then corpus_rows rest
      else r # corpus_rows rest)"

definition rebuild_bm25_index :: "env \<Rightarrow> engine \<Rightarrow> string \<Rightarrow> BM25Index \<Rightarrow> BM25Index \<times> engine" where
  "rebuild_bm25_index e st kb idx =
     (let rows = corpus_rows (collections st (get_collection_name e kb None));
          idx' = build_index e idx (map row_id rows) (map document rows)
      in (idx', st \<lparr> bm25_files := (bm25_files st)(kb := Some (Some (index_data_of idx'))),
                     bm25_indices := (bm25_indices st)(kb := Some idx') \<rparr>))"


subsection \<open>Lexical search\<close>




subsection \<open>Re-ranking (\<open>query_enhancement.rerank_results\<close>)\<close>






subsection \<open>Hybrid search: Reciprocal Rank Fusion\<close>










subsection \<open>Knowledge bases and ingestion\<close>

record ProcessedDocument =
  document_id :: string
  filename :: string
  file_type :: string
  chunks :: "DocumentChunk list"
  document_metadata :: metadata
  raw_text :: string

definition kb_metadata_row :: "string \<Rightarrow> string \<Rightarrow> string \<Rightarrow> string \<Rightarrow> nat \<Rightarrow> row" where
  "kb_metadata_row name description icon created_at dims =
     \<lparr> row_id = ''__kb_metadata__'', document = ''Knowledge Base Metadata'',
       row_metadata = [(''type'', ''kb_metadata''), (''name'', name), (''description'', description),
                       (''icon'', icon), (''created_at'', created_at)],
       embedding = replicate dims 0 \<rparr>"

text \<open>
  \<open>create_knowledge_base\<close> on one provider's collection: the sentinel record is added, or,
  when the insertion raises because it exists, its metadata is replaced.
\<close>

definition put_kb_metadata :: "env \<Rightarrow> string \<Rightarrow> row \<Rightarrow> engine \<Rightarrow> engine" where
  "put_kb_metadata e name sentinel st =
     (case chroma_add e name (collections st name) [sentinel] of
        Inr rows' \<Rightarrow> st \<lparr> collections := (collections st)(name := rows') \<rparr>
      | Inl err \<Rightarrow>
          st \<lparr> collections := (collections st)(name :=
                 map (\<lambda>r. if row_id r = ''__kb_metadata__''
                           then r \<lparr> row_metadata := row_metadata sentinel \<rparr> else r)
                     (collections st name)) \<rparr>)"

definition create_knowledge_base ::
  "env \<Rightarrow> engine \<Rightarrow> string \<Rightarrow> string \<Rightarrow> string \<Rightarrow> string \<Rightarrow> string \<Rightarrow> nat \<Rightarrow> nat \<Rightarrow> engine" where
  "create_knowledge_base e st kb name description icon created_at local_dimensions openai_dimensions =
     put_kb_metadata e (get_collection_name e kb (Some ''openai''))
       (kb_metadata_row name description icon created_at openai_dimensions)
       (put_kb_metadata e (get_collection_name e kb (Some ''local''))
          (kb_metadata_row name description icon created_at local_dimensions) st)"









subsection \<open>A concrete environment\<close>




subsection \<open>Reciprocal Rank Fusion as the specification words it\<close>






section \<open>Properties of chunking\<close>





lemma find_break_pos:
  "find_break region seps = Some off \<Longrightarrow> [] \<notin> set seps \<Longrightarrow> 0 < off"
  by (induction seps) (auto split: option.splits)






lemma chunk_step_start:
  "fst (chunk_step C ov tx d m (start, ci, cks)) =
     (if chunk_end C tx start - int ov \<le> 0 \<and>
         0 < (if py_strip (py_slice tx start (chunk_end C tx start)) \<noteq> [] then ci + 1 else ci)
      then chunk_end C tx start else chunk_end C tx start - int ov)"
  by (simp add: chunk_step_def Let_def)



lemma separators_nonempty: "[] \<notin> set separators"
  by (simp add: separators_def)

lemma chunk_end_progress:
  "chunk_end C tx start = start + int C \<or> start + int (C * 4 div 5) < chunk_end C tx start"
proof (cases "find_break (py_slice tx (start + int (C * 4 div 5)) (start + int C)) separators")
  case None
  then show ?thesis by (simp add: chunk_end_def Let_def)
next
  case (Some off)
  from find_break_pos[OF Some separators_nonempty] Some show ?thesis
    by (simp add: chunk_end_def Let_def)
qed

lemma chunk_step_progress:
  assumes "5 * ov < 4 * C" and "0 \<le> fst st"
  shows "fst st < fst (chunk_step C ov tx d m st)"
proof -
  obtain start ci cks where st: "st = (start, ci, cks)" by (cases st) auto
  from assms(1) have ov: "ov \<le> C * 4 div 5" "ov < C" by linarith+
  from chunk_end_progress[of C tx start] ov
  have "start < chunk_end C tx start - int ov" by linarith
  with assms(2) show ?thesis
    unfolding st chunk_step_start by simp
qed

lemma chunk_loop_terminates:
  assumes "5 * ov < 4 * C"
  shows "0 \<le> fst st \<Longrightarrow> \<exists>r. chunk_loop C ov tx d m st = Some r"
proof (induction "nat (int (length tx) - fst st)" arbitrary: st rule: less_induct)
  case less
  show ?case
  proof (cases "fst st < int (length tx)")
    case False
    then show ?thesis by (subst chunk_loop.simps) simp
  next
    case True
    let ?st' = "chunk_step C ov tx d m st"
    have prog: "fst st < fst ?st'" by (rule chunk_step_progress[OF assms less.prems])
    with True have "nat (int (length tx) - fst ?st') < nat (int (length tx) - fst st)" by linarith
    moreover from prog less.prems have "0 \<le> fst ?st'" by linarith
    ultimately obtain r where "chunk_loop C ov tx d m ?st' = Some r"
      using less.hyps by blast
    with True show ?thesis by (subst chunk_loop.simps) simp
  qed
qed










text \<open>
  C10. When the overlap in characters is smaller than 80% of the window in characters,
  chunking returns: every cut point lies at least 80% of the window beyond the start of its
  window, so every iteration moves the start forward.
\<close>

theorem create_chunks_terminates:
  assumes "5 * (chunk_overlap * chars_per_token) < 4 * (chunk_size * chars_per_token)"
  shows "(\<exists>cks. create_chunks chunk_size chunk_overlap tx doc_id base_metadata = Some cks) \<and>
         (\<forall>t start. start + int (chunk_size * chars_per_token * 4 div 5)
                       \<le> chunk_end (chunk_size * chars_per_token) t start) \<and>
         (\<forall>t st. 0 \<le> fst st \<longrightarrow>
            fst st < fst (chunk_step (chunk_size * chars_per_token) (chunk_overlap * chars_per_token)
                            t doc_id base_metadata st))"
proof (intro conjI allI impI)
  show "\<exists>cks. create_chunks chunk_size chunk_overlap tx doc_id base_metadata = Some cks"
    using chunk_loop_terminates[OF assms, of "(0, 0, [])"]
    by (simp add: create_chunks_def Let_def)
next
  fix t :: string and start
  show "start + int (chunk_size * chars_per_token * 4 div 5)
          \<le> chunk_end (chunk_size * chars_per_token) t start"
    using chunk_end_progress[of "chunk_size * chars_per_token" t start] by linarith
next
  fix t :: string and st :: "int \<times> nat \<times> DocumentChunk list"
  assume "0 \<le> fst st"
  with assms show "fst st < fst (chunk_step (chunk_size * chars_per_token)
      (chunk_overlap * chars_per_token) t doc_id base_metadata st)"
    by (rule chunk_step_progress)
qed

theorem create_chunks_terminates_witness:
  "5 * (100 * chars_per_token) < 4 * (800 * chars_per_token) \<and>
   (\<exists>cks. create_chunks 800 100 ''Hallo Welt. Zweiter Satz.'' ''d'' [] = Some cks) \<and>
   fst (0 :: int, 0 :: nat, [] :: DocumentChunk list)
     < fst (chunk_step (800 * chars_per_token) (100 * chars_per_token) ''Hallo Welt. Zweiter Satz.''
              ''d'' [] (0, 0, []))"
proof -
  have h: "5 * (100 * chars_per_token) < 4 * (800 * chars_per_token)"
    by (simp add: chars_per_token_def)
  from create_chunks_terminates[OF h, of "''Hallo Welt. Zweiter Satz.''" "''d''" "[]"] h
  show ?thesis by simp
qed

section \<open>Properties of query expansion\<close>

lemma dict_fromkeys_fold:
  "distinct acc \<Longrightarrow>
   distinct (fold (\<lambda>x acc. if x \<in> set acc then acc else acc @ [x]) xs acc) \<and>
   set (fold (\<lambda>x acc. if x \<in> set acc then acc else acc @ [x]) xs acc) = set acc \<union> set xs"
  by (induction xs arbitrary: acc) auto

lemma distinct_dict_fromkeys: "distinct (dict_fromkeys xs)"
  using dict_fromkeys_fold[of "[]" xs] by (simp add: dict_fromkeys_def)

lemma set_dict_fromkeys: "set (dict_fromkeys xs) = set xs"
  using dict_fromkeys_fold[of "[]" xs] by (simp add: dict_fromkeys_def)

lemma dict_fromkeys_Nil_iff: "dict_fromkeys xs = [] \<longleftrightarrow> xs = []"
  using set_dict_fromkeys[of xs] by (metis set_empty)

lemma expanded_terms_origin:
  assumes "t \<in> set (expanded_terms_of tab ql kb_ids)"
  shows "\<exists>kb\<in>set kb_ids. \<exists>expansions. map_of tab kb = Some expansions \<and>
           (\<exists>(key, synonyms)\<in>set expansions. contains key ql \<and> t \<in> set (take 3 synonyms))"
proof -
  from assms obtain kb where kb: "kb \<in> set kb_ids"
    and t: "t \<in> set (case map_of tab kb of None \<Rightarrow> [] | Some e \<Rightarrow> matched_synonyms e ql)"
    by (auto simp: expanded_terms_of_def)
  then obtain e where e: "map_of tab kb = Some e" and te: "t \<in> set (matched_synonyms e ql)"
    by (cases "map_of tab kb") auto
  from te obtain key syns where "(key, syns) \<in> set e" "contains key ql" "t \<in> set (take 3 syns)"
    by (auto simp: matched_synonyms_def split: if_splits)
  then have "\<exists>(key, synonyms)\<in>set e. contains key ql \<and> t \<in> set (take 3 synonyms)"
    by blast
  with kb e show ?thesis by blast
qed

lemma take_dict_fromkeys_Nil: "take 6 (dict_fromkeys xs) = [] \<longleftrightarrow> xs = []"
  by (simp add: dict_fromkeys_Nil_iff)

text \<open>
  C9. \<open>expand_query\<close> appends at most six distinct terms, each among the first three
  synonyms of a table key that occurs in the lower-cased query, the table being registered for
  one of the targeted knowledge bases; it changes the query only when such a key exists, and
  returns it unchanged for no ids, an empty id list, no registered table or no matching key.
\<close>

theorem expand_query_bounded:
  "\<exists>added.
     length added \<le> 6 \<and> distinct added \<and>
     (\<forall>t\<in>set added. \<exists>kb\<in>set kb_ids. \<exists>expansions.
         map_of KB_EXPANSIONS kb = Some expansions \<and>
         (\<exists>(key, synonyms)\<in>set expansions.
             contains key (py_lower query) \<and> t \<in> set (take 3 synonyms))) \<and>
     expand_query query (Some kb_ids) =
       (if added = [] then query else query @ '' '' @ py_join '' '' added) \<and>
     (expand_query query (Some kb_ids) \<noteq> query \<longrightarrow>
        (\<exists>kb\<in>set kb_ids. \<exists>expansions.
            map_of KB_EXPANSIONS kb = Some expansions \<and>
            (\<exists>(key, synonyms)\<in>set expansions. contains key (py_lower query)))) \<and>
     expand_query query None = query \<and>
     expand_query query (Some []) = query"
proof -
  let ?et = "expanded_terms_of KB_EXPANSIONS (py_lower query) kb_ids"
  let ?added = "if kb_ids = [] then [] else take 6 (dict_fromkeys ?et)"
  have len: "length ?added \<le> 6" by simp
  have dist: "distinct ?added" by (simp add: distinct_dict_fromkeys)
  have orig: "\<forall>t\<in>set ?added. \<exists>kb\<in>set kb_ids. \<exists>expansions.
         map_of KB_EXPANSIONS kb = Some expansions \<and>
         (\<exists>(key, synonyms)\<in>set expansions.
             contains key (py_lower query) \<and> t \<in> set (take 3 synonyms))"
  proof
    fix t assume "t \<in> set ?added"
    then have "t \<in> set (dict_fromkeys ?et)" by (auto split: if_splits dest: in_set_takeD)
    then have "t \<in> set ?et" by (simp add: set_dict_fromkeys)
    then show "\<exists>kb\<in>set kb_ids. \<exists>expansions.
         map_of KB_EXPANSIONS kb = Some expansions \<and>
         (\<exists>(key, synonyms)\<in>set expansions.
             contains key (py_lower query) \<and> t \<in> set (take 3 synonyms))"
      by (rule expanded_terms_origin)
  qed
  have eq: "expand_query query (Some kb_ids) =
       (if ?added = [] then query else query @ '' '' @ py_join '' '' ?added)"
    by (simp add: expand_query_def Let_def dict_fromkeys_Nil_iff)
  have mod: "expand_query query (Some kb_ids) \<noteq> query \<longrightarrow>
        (\<exists>kb\<in>set kb_ids. \<exists>expansions.
            map_of KB_EXPANSIONS kb = Some expansions \<and>
            (\<exists>(key, synonyms)\<in>set expansions. contains key (py_lower query)))"
  proof
    assume "expand_query query (Some kb_ids) \<noteq> query"
    then have "?added \<noteq> []" unfolding eq by (simp split: if_splits)
    then obtain t where "t \<in> set ?added" by (cases ?added) auto
    with orig show "\<exists>kb\<in>set kb_ids. \<exists>expansions.
            map_of KB_EXPANSIONS kb = Some expansions \<and>
            (\<exists>(key, synonyms)\<in>set expansions. contains key (py_lower query))"
      by fastforce
  qed
  have triv: "expand_query query None = query" "expand_query query (Some []) = query"
    by (simp_all add: expand_query_def)
  from len dist orig eq mod triv show ?thesis by blast
qed

theorem expand_query_bounded_witness:
  "expand_query (''K'' @ [CHR 0xFC] @ ''ndigung Arbeitsvertrag'') (Some [''bundesrecht'']) =
     (''K'' @ [CHR 0xFC] @ ''ndigung Arbeitsvertrag'') @ '' '' @
       py_join '' '' [''Kontrakt'', ''Vereinbarung'', ''Obligationenrecht'',
                      ''K'' @ [CHR 0xFC] @ ''ndigungsfrist'', ''Beendigung'',
                      ''Aufl'' @ [CHR 0xF6] @ ''sung''] \<and>
   expand_query ''Hallo'' (Some [''bundesrecht'']) = ''Hallo'' \<and>
   expand_query ''Vertrag'' (Some [''gemeindewissen'']) = ''Vertrag''"
proof -
  have val: "expand_query (''K'' @ [CHR 0xFC] @ ''ndigung Arbeitsvertrag'') (Some [''bundesrecht'']) =
     (''K'' @ [CHR 0xFC] @ ''ndigung Arbeitsvertrag'') @ '' '' @
       py_join '' '' [''Kontrakt'', ''Vereinbarung'', ''Obligationenrecht'',
                      ''K'' @ [CHR 0xFC] @ ''ndigungsfrist'', ''Beendigung'',
                      ''Aufl'' @ [CHR 0xF6] @ ''sung'']"
    by code_simp
  have unchanged: "expand_query ''Hallo'' (Some [''bundesrecht'']) = ''Hallo''"
    "expand_query ''Vertrag'' (Some [''gemeindewissen'']) = ''Vertrag''"
    by code_simp+
  from expand_query_bounded[of "[''bundesrecht'']" "''K'' @ [CHR 0xFC] @ ''ndigung Arbeitsvertrag''"]
  obtain added where "length added \<le> 6"
    and "expand_query (''K'' @ [CHR 0xFC] @ ''ndigung Arbeitsvertrag'') (Some [''bundesrecht'']) =
      (if added = [] then ''K'' @ [CHR 0xFC] @ ''ndigung Arbeitsvertrag''
       else (''K'' @ [CHR 0xFC] @ ''ndigung Arbeitsvertrag'') @ '' '' @ py_join '' '' added)"
    by blast
  with val unchanged show ?thesis by simp
qed

section \<open>Properties of change detection\<close>






section \<open>Properties of ingestion\<close>






lemma collection_name_suffix:
  "p \<noteq> [] \<Longrightarrow> get_collection_name e kb (Some p) \<noteq> get_collection_name e kb None"
  by (simp add: get_collection_name_def)

lemma collection_name_providers:
  "get_collection_name e kb (Some ''local'') \<noteq> get_collection_name e kb (Some ''openai'')"
  by (simp add: get_collection_name_def)






section \<open>Properties of the search operations\<close>

lemma collect_results_no_sentinel:
  "r \<in> set (collect_results th ns) \<Longrightarrow>
     chunk_id r \<noteq> ''__kb_metadata__'' \<and> \<not> is_kb_metadata (result_metadata r)"
  by (induction th ns rule: collect_results.induct) (auto split: if_splits)

lemma search_no_sentinel:
  assumes "r \<in> set (search e st query kb_ids top_k provider)"
  shows "chunk_id r \<noteq> ''__kb_metadata__'' \<and> \<not> is_kb_metadata (result_metadata r)"
proof -
  from assms obtain qe k p kbs where
    "r \<in> set (take k (sort_key (\<lambda>r. - score r) (concat (map (search_kb e k p qe) kbs))))"
    by (auto simp: search_def Let_def split: option.splits)
  then have "r \<in> set (concat (map (search_kb e k p qe) kbs))"
    by (auto dest: in_set_takeD)
  then obtain kb where "r \<in> set (search_kb e k p qe kb)" by auto
  then show ?thesis
    by (auto simp: search_kb_def split: sum.splits dest: collect_results_no_sentinel)
qed

lemma corpus_rows_no_sentinel:
  "r \<in> set (corpus_rows rows) \<Longrightarrow>
     row_id r \<noteq> ''__kb_metadata__'' \<and> \<not> is_kb_metadata (row_metadata r)"
  by (induction rows) (auto split: if_splits)

lemma rebuild_no_sentinel:
  "''__kb_metadata__'' \<notin> set (doc_ids (fst (rebuild_bm25_index e st kb idx)))"
  by (auto simp: rebuild_bm25_index_def build_index_def Let_def dest: corpus_rows_no_sentinel)



























lemma descending_of_sorted_neg:
  fixes f :: "'a \<Rightarrow> real"
  shows "sorted (map (\<lambda>x. - f x) l) \<Longrightarrow> sorted_wrt (\<lambda>a b. f b \<le> f a) l"
  by (simp add: sorted_wrt_map)




end
